theory Spec2Isabelle
  imports Main
begin

section \<open>JavaScript values and objects\<close>

text \<open>
  The backend functions pass plain JavaScript objects around: Firestore document data,
  the payload of a callable function, the object literal that \<open>getVideo\<close> returns.
  An object is a finite map from property names to values; reading a property that the
  object does not have yields \<open>undefined\<close>. The only values the modelled code
  handles are strings (identifiers) and \<open>undefined\<close>.
\<close>

datatype jsval = JUndefined | JString string

type_synonym jsobject = "string \<rightharpoonup> jsval"

type_synonym tID = string

text \<open>Property access \<open>obj.name\<close>.\<close>

definition get_prop :: "jsobject \<Rightarrow> string \<Rightarrow> jsval" where
  "get_prop obj name = (case obj name of None \<Rightarrow> JUndefined | Some v \<Rightarrow> v)"

text \<open>The string a value contributes to a template literal \<open>`...${v}`\<close>.\<close>

fun template :: "jsval \<Rightarrow> string" where
  "template JUndefined = ''undefined''"
| "template (JString s) = s"

section \<open>The callable function getChannels\<close>

text \<open>
  \<open>functions/src/functions/getChannels.ts\<close>. The callable receives the request
  payload \<open>data\<close> and a context whose \<open>auth\<close> member is absent for an
  unauthenticated call. A call made without a payload has \<open>data\<close> equal to
  \<open>null\<close>, modelled as \<open>None\<close>; a payload is an object (a payload that is a
  number or a string has no properties and behaves as the empty object).

  Two services are consulted: the authentication service (\<open>admin.auth().getUser\<close>),
  given here by the set of user identifiers it knows, and the \<open>channels\<close>
  collection of the document database, given by the list of its documents in the order
  the query returns them, together with \<open>query_error\<close>: \<open>None\<close> when
  \<open>query.get()\<close> resolves, the reason when it rejects.
\<close>

text \<open>
  What the handler throws: the \<open>HttpsError\<close> values it constructs (category and
  message), the \<open>TypeError\<close> of reading \<open>data.user\<close> when \<open>data\<close> is
  \<open>null\<close> (the read stands outside the \<open>try\<close>), and the rejection of
  \<open>query.get()\<close>, which nothing catches.
\<close>

datatype callable_error =
    HttpsError string string
  | TypeError
  | QueryRejected string

record AuthData =
  uid :: string

record CallableContext =
  callable_auth :: "AuthData option"

text \<open>
  \<open>admin.auth().getUser(user)\<close> resolves when \<open>user\<close> is the identifier of a
  known user and rejects otherwise (also when \<open>user\<close> is not a string).
\<close>

definition getUser :: "string set \<Rightarrow> jsval \<Rightarrow> bool" where
  "getUser users user = (case user of JString u \<Rightarrow> u \<in> users | JUndefined \<Rightarrow> False)"

text \<open>
  \<open>db.collection('channels').where('owner', '==', user).limit(100)\<close>: the documents
  whose \<open>owner\<close> field equals \<open>user\<close>, cut after the first hundred;
  \<open>querySnapshot.docs.map(docSnap => docSnap.data())\<close> returns their data.
\<close>

definition channels_query :: "jsobject list \<Rightarrow> jsval \<Rightarrow> jsobject list" where
  "channels_query channels user = take 100 (filter (\<lambda>doc. doc ''owner'' = Some user) channels)"

definition getChannels ::
  "string set \<Rightarrow> jsobject list \<Rightarrow> string option \<Rightarrow> jsobject option \<Rightarrow> CallableContext
     \<Rightarrow> callable_error + jsobject list" where
  "getChannels users channels query_error data context =
     (if callable_auth context = None
      then Inl (HttpsError ''unauthenticated'' ''User must be authenticated to make this request'')
      else
        (case data of
           None \<Rightarrow> Inl TypeError
         | Some payload \<Rightarrow>
             let user = get_prop payload ''user'' in
             if \<not> getUser users user
             then Inl (HttpsError ''invalid-argument'' ''User could not found'')
             else
               (case query_error of
                  Some reason \<Rightarrow> Inl (QueryRejected reason)
                | None \<Rightarrow> Inr (channels_query channels user))))"

section \<open>The video content service\<close>

text \<open>
  \<open>src/unnamed/part_000\<close>: \<open>getVideo\<close>, \<open>promisePiper\<close>,
  \<open>uploadVideo\<close> and \<open>deleteVideo\<close>.
\<close>

subsection \<open>Errors, outcomes and effects\<close>

text \<open>
  The two error classes the service throws itself, with their constructor arguments;
  \<open>ServiceFailure\<close> for the rejection of a call to another service (the video data
  service, the object store, the HTTP client), which the service never catches; and
  \<open>FirestorePathError\<close> for the plain \<open>Error\<close> that
  \<open>firestoreInstance.doc\<close> throws at a string that is not a document path (it
  carries the string).
\<close>

datatype error =
    ResourceNotFoundError string string tID
  | AuthorizationError string string
  | ServiceFailure string
  | FirestorePathError string

text \<open>
  An \<open>async\<close> function returns, throws, or never settles (when it awaits a promise
  that stays pending).
\<close>

datatype 'a outcome = Returned 'a | Threw error | NeverSettles

text \<open>The body of the POST request to the transcoder.\<close>

record asset_request =
  input :: string
  playback_policy :: "string list"
  passthrough :: tID

text \<open>
  Every call that leaves the service, in the order it is issued: the reads
  (\<open>FirestoreGet\<close>, \<open>VideoDataGet\<close>) and the mutations.
\<close>

datatype effect =
    FirestoreGet string
  | VideoDataGet tID
  | StorageWrite string string
  | MakePublic string
  | AxiosPost string asset_request
  | AxiosDelete string
  | FirestoreDelete string

fun is_mutation :: "effect \<Rightarrow> bool" where
  "is_mutation (FirestoreGet p) = False"
| "is_mutation (VideoDataGet i) = False"
| "is_mutation (StorageWrite p m) = True"
| "is_mutation (MakePublic p) = True"
| "is_mutation (AxiosPost u b) = True"
| "is_mutation (AxiosDelete u) = True"
| "is_mutation (FirestoreDelete p) = True"

fun is_transcoder_call :: "effect \<Rightarrow> bool" where
  "is_transcoder_call (AxiosPost u b) = True"
| "is_transcoder_call (AxiosDelete u) = True"
| "is_transcoder_call e = False"

subsection \<open>The invocation context and the services around the code\<close>

text \<open>
  \<open>IServiceInvocationContext\<close> is declared outside the file; the code reads only
  \<open>context.auth.userID\<close>.
\<close>

record auth_info =
  userID :: tID

record IServiceInvocationContext =
  auth :: auth_info

text \<open>
  The document database is the state the service works on: a map from the path of a
  document (its segments joined by \<open>/\<close>, as in \<open>content/v1\<close>) to the
  document's data. A read looks the path up and a delete removes it; neither fails.
\<close>

type_synonym firestore = "string \<rightharpoonup> jsobject"

text \<open>
  \<open>firestoreInstance.doc(documentPath)\<close> checks and resolves the string before
  anything is read. The client refuses the empty string and a string that contains
  \<open>//\<close>; it splits the string at \<open>/\<close> and drops the empty segments (so a
  leading or trailing slash is allowed); and it refuses a path whose number of segments
  is zero or odd, since that is no document. \<open>split_on\<close> is JavaScript's
  \<open>split\<close>; \<open>doc\<close> returns the error thrown or the path of the document
  referred to.
\<close>

fun split_on :: "char \<Rightarrow> string \<Rightarrow> string list" where
  "split_on c [] = [[]]"
| "split_on c (x # xs) =
     (if x = c then [] # split_on c xs
      else (case split_on c xs of [] \<Rightarrow> [[x]] | s # ss \<Rightarrow> (x # s) # ss))"

fun contains_double_slash :: "string \<Rightarrow> bool" where
  "contains_double_slash (a # b # rest) =
     ((a = CHR ''/'' \<and> b = CHR ''/'') \<or> contains_double_slash (b # rest))"
| "contains_double_slash rest = False"

definition segments :: "string \<Rightarrow> string list" where
  "segments relativePath =
     filter (\<lambda>segment. length segment > 0) (split_on CHR ''/'' relativePath)"

fun join :: "string list \<Rightarrow> string" where
  "join [] = []"
| "join [s] = s"
| "join (s # t # ss) = s @ ''/'' @ join (t # ss)"

definition doc :: "string \<Rightarrow> error + string" where
  "doc documentPath =
     (if documentPath = [] \<or> contains_double_slash documentPath
      then Inl (FirestorePathError documentPath)
      else let path = segments documentPath in
        if \<not> (length path > 0 \<and> length path mod 2 = 0)
        then Inl (FirestorePathError documentPath)
        else Inr (join path))"

text \<open>The events a writable stream emits.\<close>

datatype stream_event = Drain | Pipe | Unpipe | Finish | Close | Error string

text \<open>
  What the surrounding services answer during one invocation:
  \<^item> \<open>VideoDataService_getVideo\<close>: the result of \<open>VideoDataService.getVideo\<close>
    (another module of the repository), the video record or the error it throws;
  \<^item> \<open>writeStream_events\<close>: the events the storage write stream emits while the
    upload is piped into it, in order;
  \<^item> \<open>makePublic_result\<close>, \<open>post_result\<close>, \<open>delete_result\<close>: \<open>None\<close>
    when \<open>storageObject.makePublic()\<close>, \<open>axios.post\<close>, \<open>axios.delete\<close>
    resolve, the error when they reject.
\<close>

record services =
  VideoDataService_getVideo :: "IServiceInvocationContext \<Rightarrow> tID \<Rightarrow> error + jsobject"
  writeStream_events :: "stream_event list"
  makePublic_result :: "error option"
  post_result :: "error option"
  delete_result :: "error option"

subsection \<open>getVideo\<close>

definition getVideo ::
  "firestore \<Rightarrow> IServiceInvocationContext \<Rightarrow> tID \<Rightarrow> effect list \<times> jsobject outcome" where
  "getVideo db context id' =
     (case doc (''content/'' @ id') of
        Inl e \<Rightarrow> ([], Threw e)
      | Inr contentDoc \<Rightarrow>
          (case db contentDoc of
             None \<Rightarrow>
               ([FirestoreGet contentDoc],
                Threw (ResourceNotFoundError ''VideoContent'' ''videoContent'' id'))
           | Some contentData \<Rightarrow>
               ([FirestoreGet contentDoc],
                Returned [''id'' \<mapsto> JString id',
                          ''assetID'' \<mapsto> get_prop contentData ''assetID'',
                          ''playbackID'' \<mapsto> get_prop contentData ''playbackID''])))"

subsection \<open>promisePiper\<close>

text \<open>
  A promise is pending until the first call of \<open>resolve\<close> or \<open>reject\<close> settles
  it; later calls change nothing.
\<close>

datatype promise = Pending | Fulfilled | Rejected string

definition resolve :: "promise \<Rightarrow> promise" where
  "resolve p = (case p of Pending \<Rightarrow> Fulfilled | _ \<Rightarrow> p)"

definition reject :: "string \<Rightarrow> promise \<Rightarrow> promise" where
  "reject e p = (case p of Pending \<Rightarrow> Rejected e | _ \<Rightarrow> p)"

text \<open>
  The executor pipes the read stream into the write stream and registers one listener,
  for \<open>'finish'\<close>, which calls \<open>resolve\<close>. \<open>on_event\<close> is what the registered
  listeners do to the promise at one event of the write stream; \<open>promisePiper\<close> is
  the state of the returned promise once the write stream has emitted all its events.
  The read stream's data plays no part in it.
\<close>

fun on_event :: "stream_event \<Rightarrow> promise \<Rightarrow> promise" where
  "on_event Finish p = resolve p"
| "on_event ev p = p"

definition promisePiper :: "'r \<Rightarrow> stream_event list \<Rightarrow> promise" where
  "promisePiper readStream writeStream = fold on_event writeStream Pending"

subsection \<open>uploadVideo\<close>

definition uploadVideo ::
  "services \<Rightarrow> IServiceInvocationContext \<Rightarrow> tID \<Rightarrow> string \<Rightarrow> string \<Rightarrow> effect list \<times> unit outcome" where
  "uploadVideo env context id' fileStream mime =
     (case VideoDataService_getVideo env context id' of
        Inl e \<Rightarrow> ([VideoDataGet id'], Threw e)
      | Inr video \<Rightarrow>
          if JString (userID (auth context)) \<noteq> get_prop video ''author''
          then ([VideoDataGet id'], Threw (AuthorizationError ''VideoContent'' ''upload video data''))
          else
            let path = ''masters/'' @ userID (auth context) @ ''/'' @ id';
                request = \<lparr>input = ''https://storage.googleapis.com/meteor-videos/'' @ path,
                           playback_policy = [''public''],
                           passthrough = id'\<rparr>;
                post = AxiosPost ''https://api.mux.com/video/v1/assets'' request
            in (case promisePiper fileStream (writeStream_events env) of
                 Pending \<Rightarrow> ([VideoDataGet id', StorageWrite path mime], NeverSettles)
               | Rejected e \<Rightarrow> ([VideoDataGet id', StorageWrite path mime], Threw (ServiceFailure e))
               | Fulfilled \<Rightarrow>
                   (case makePublic_result env of
                      Some e \<Rightarrow> ([VideoDataGet id', StorageWrite path mime, MakePublic path], Threw e)
                    | None \<Rightarrow>
                        (case post_result env of
                           Some e \<Rightarrow>
                             ([VideoDataGet id', StorageWrite path mime, MakePublic path, post],
                              Threw e)
                         | None \<Rightarrow>
                             ([VideoDataGet id', StorageWrite path mime, MakePublic path, post],
                              Returned ())))))"

subsection \<open>deleteVideo\<close>

text \<open>
  The function returns the calls it issued, the document database afterwards and its
  outcome. The document it deletes is \<open>firestoreInstance.doc(`content/id`)\<close>: the
  template literal has no placeholder. Deleting a path that holds no document succeeds.
\<close>

definition deleteVideo ::
  "services \<Rightarrow> firestore \<Rightarrow> IServiceInvocationContext \<Rightarrow> tID
     \<Rightarrow> effect list \<times> firestore \<times> unit outcome" where
  "deleteVideo env db context id' =
     (case getVideo db context id' of
        (fetch, Threw e) \<Rightarrow> (fetch, db, Threw e)
      | (fetch, NeverSettles) \<Rightarrow> (fetch, db, NeverSettles)
      | (fetch, Returned contentRecord) \<Rightarrow>
          let url = ''https://api.mux.com/video/v1/assets/'' @ template (get_prop contentRecord ''assetID'')
          in (case delete_result env of
               Some e \<Rightarrow> (fetch @ [AxiosDelete url], db, Threw e)
             | None \<Rightarrow>
                 (case doc ''content/id'' of
                    Inl e \<Rightarrow> (fetch @ [AxiosDelete url], db, Threw e)
                  | Inr contentDoc \<Rightarrow>
                      (fetch @ [AxiosDelete url, FirestoreDelete contentDoc],
                       db(contentDoc := None),
                       Returned ()))))"

section \<open>Properties of getChannels\<close>

text \<open>
  Claim C5. An authenticated call whose payload names an existing user returns at most
  100 records, each of them a document of the \<open>channels\<close> collection whose
  \<open>owner\<close> field equals the given identifier: it returns such a list whenever the
  query resolves, and when the query rejects it returns no record at all.
\<close>

theorem getChannels_bounded_and_owned:
  assumes "callable_auth context \<noteq> None"
      and "data = Some payload"
      and "getUser users (get_prop payload ''user'')"
  shows "(query_error = None \<longrightarrow>
            (\<exists>result. getChannels users channels query_error data context = Inr result
               \<and> length result \<le> 100
               \<and> (\<forall>c \<in> set result.
                     c \<in> set channels \<and> c ''owner'' = Some (get_prop payload ''user''))))
         \<and> (\<forall>reason. query_error = Some reason \<longrightarrow>
               getChannels users channels query_error data context = Inl (QueryRejected reason))"
proof -
  let ?user = "get_prop payload ''user''"
  have len: "length (channels_query channels ?user) \<le> 100"
    by (simp add: channels_query_def)
  have own: "\<forall>c \<in> set (channels_query channels ?user). c \<in> set channels \<and> c ''owner'' = Some ?user"
  proof
    fix c assume "c \<in> set (channels_query channels ?user)"
    then have "c \<in> set (filter (\<lambda>doc. doc ''owner'' = Some ?user) channels)"
      unfolding channels_query_def by (rule in_set_takeD)
    then show "c \<in> set channels \<and> c ''owner'' = Some ?user" by simp
  qed
  have resolved: "query_error = None \<longrightarrow>
      getChannels users channels query_error data context = Inr (channels_query channels ?user)"
    using assms by (auto simp add: getChannels_def)
  have rejected: "\<forall>reason. query_error = Some reason \<longrightarrow>
      getChannels users channels query_error data context = Inl (QueryRejected reason)"
    using assms by (auto simp add: getChannels_def)
  from resolved len own rejected show ?thesis by blast
qed

theorem getChannels_bounded_and_owned_witness:
  "callable_auth \<lparr>callable_auth = Some \<lparr>uid = ''carol''\<rparr>\<rparr> \<noteq> None
   \<and> getUser {''alice''} (get_prop [''user'' \<mapsto> JString ''alice''] ''user'')
   \<and> getChannels {''alice''}
        [[''owner'' \<mapsto> JString ''alice'', ''name'' \<mapsto> JString ''cats''],
         [''owner'' \<mapsto> JString ''bob'', ''name'' \<mapsto> JString ''dogs'']]
        None
        (Some [''user'' \<mapsto> JString ''alice''])
        \<lparr>callable_auth = Some \<lparr>uid = ''carol''\<rparr>\<rparr>
     = Inr [[''owner'' \<mapsto> JString ''alice'', ''name'' \<mapsto> JString ''cats'']]"
proof -
  let ?channels = "[[''owner'' \<mapsto> JString ''alice'', ''name'' \<mapsto> JString ''cats''],
                    [''owner'' \<mapsto> JString ''bob'', ''name'' \<mapsto> JString ''dogs'']]"
  let ?payload = "[''user'' \<mapsto> JString ''alice'']"
  let ?caller = "\<lparr>callable_auth = Some \<lparr>uid = ''carol''\<rparr>\<rparr>"
  have h1: "callable_auth ?caller \<noteq> None"
    by simp
  have h2: "Some ?payload = Some ?payload"
    by simp
  have h3: "getUser {''alice''} (get_prop ?payload ''user'')"
    by (simp add: getUser_def get_prop_def)
  from getChannels_bounded_and_owned [OF h1 h2 h3, of None ?channels]
  obtain result where res: "getChannels {''alice''} ?channels None (Some ?payload) ?caller = Inr result"
    by blast
  have "getChannels {''alice''} ?channels None (Some ?payload) ?caller
          = Inr [[''owner'' \<mapsto> JString ''alice'', ''name'' \<mapsto> JString ''cats'']]"
    by (simp add: getChannels_def channels_query_def get_prop_def getUser_def)
  with res have "result = [[''owner'' \<mapsto> JString ''alice'', ''name'' \<mapsto> JString ''cats'']]"
    by simp
  with res have "getChannels {''alice''} ?channels None (Some ?payload) ?caller
          = Inr [[''owner'' \<mapsto> JString ''alice'', ''name'' \<mapsto> JString ''cats'']]"
    by simp
  with h1 h3 show ?thesis by (intro conjI)
qed

text \<open>
  Claim C7, as amended. The call fails with \<open>unauthenticated\<close> exactly when it has
  no authentication context, and with \<open>invalid-argument\<close> exactly when it has an
  authentication context and a payload whose user identifier does not resolve. These
  are the only two categories it constructs. Its other failures are the
  \<open>TypeError\<close> of an authenticated call without a payload and the rejection of the
  channel query, thrown as they are; it returns exactly when none of the four arises.
  No failure is caught or tried again: each is the result of the call.
\<close>

theorem getChannels_failures:
  "((\<exists>message. getChannels users channels query_error data context
        = Inl (HttpsError ''unauthenticated'' message))
      \<longleftrightarrow> callable_auth context = None)
   \<and> ((\<exists>message. getChannels users channels query_error data context
        = Inl (HttpsError ''invalid-argument'' message))
      \<longleftrightarrow> callable_auth context \<noteq> None
          \<and> (\<exists>payload. data = Some payload \<and> \<not> getUser users (get_prop payload ''user'')))
   \<and> (\<forall>category message.
         getChannels users channels query_error data context = Inl (HttpsError category message)
         \<longrightarrow> category \<in> {''unauthenticated'', ''invalid-argument''})
   \<and> (getChannels users channels query_error data context = Inl TypeError
      \<longleftrightarrow> callable_auth context \<noteq> None \<and> data = None)
   \<and> (getChannels users channels query_error data context = Inl (QueryRejected reason)
      \<longleftrightarrow> callable_auth context \<noteq> None
          \<and> (\<exists>payload. data = Some payload \<and> getUser users (get_prop payload ''user''))
          \<and> query_error = Some reason)
   \<and> ((\<exists>result. getChannels users channels query_error data context = Inr result)
      \<longleftrightarrow> callable_auth context \<noteq> None
          \<and> (\<exists>payload. data = Some payload \<and> getUser users (get_prop payload ''user''))
          \<and> query_error = None)"
proof (cases "callable_auth context = None")
  case True
  then show ?thesis by (simp add: getChannels_def)
next
  case authenticated: False
  show ?thesis
  proof (cases data)
    case None
    with authenticated show ?thesis by (auto simp add: getChannels_def)
  next
    case (Some payload)
    show ?thesis
    proof (cases "getUser users (get_prop payload ''user'')")
      case False
      with authenticated Some show ?thesis by (auto simp add: getChannels_def)
    next
      case True
      with authenticated Some show ?thesis
        by (cases query_error) (auto simp add: getChannels_def)
    qed
  qed
qed

theorem getChannels_failures_witness:
  "callable_auth \<lparr>callable_auth = Some \<lparr>uid = ''carol''\<rparr>\<rparr> \<noteq> None
   \<and> \<not> getUser {''alice''} (get_prop [''user'' \<mapsto> JString ''ghost''] ''user'')
   \<and> (\<exists>message. getChannels {''alice''} [] None (Some [''user'' \<mapsto> JString ''ghost''])
                     \<lparr>callable_auth = Some \<lparr>uid = ''carol''\<rparr>\<rparr>
                   = Inl (HttpsError ''invalid-argument'' message))"
proof -
  let ?payload = "[''user'' \<mapsto> JString ''ghost'']"
  let ?caller = "\<lparr>callable_auth = Some \<lparr>uid = ''carol''\<rparr>\<rparr>"
  have h1: "callable_auth ?caller \<noteq> None"
    by simp
  have h2: "\<not> getUser {''alice''} (get_prop ?payload ''user'')"
    by (simp add: getUser_def get_prop_def)
  from h1 h2 have "callable_auth ?caller \<noteq> None
      \<and> (\<exists>payload. Some ?payload = Some payload \<and> \<not> getUser {''alice''} (get_prop payload ''user''))"
    by blast
  with getChannels_failures [of "{''alice''}" "[]" None "Some ?payload" ?caller]
  have "\<exists>message. getChannels {''alice''} [] None (Some ?payload) ?caller
                   = Inl (HttpsError ''invalid-argument'' message)"
    by blast
  with h1 h2 show ?thesis by (intro conjI)
qed

text \<open>
  The claim as stated fails in three ways. A call with no authentication context whose
  user identifier does not resolve fails with \<open>unauthenticated\<close>, not with
  \<open>invalid-argument\<close>: the authentication check comes first and the user is never
  looked up. An authenticated call without a payload fails with a \<open>TypeError\<close>,
  and an authenticated call for an existing user whose query rejects fails with that
  rejection: two failures outside both categories.
\<close>

theorem getChannels_other_failures:
  "getChannels {''alice''} [] None (Some [''user'' \<mapsto> JString ''ghost'']) \<lparr>callable_auth = None\<rparr>
     = Inl (HttpsError ''unauthenticated'' ''User must be authenticated to make this request'')
   \<and> \<not> getUser {''alice''} (get_prop [''user'' \<mapsto> JString ''ghost''] ''user'')
   \<and> getChannels {''alice''} [] None None \<lparr>callable_auth = Some \<lparr>uid = ''alice''\<rparr>\<rparr>
     = Inl TypeError
   \<and> getChannels {''alice''} [] (Some ''UNAVAILABLE'') (Some [''user'' \<mapsto> JString ''alice''])
        \<lparr>callable_auth = Some \<lparr>uid = ''alice''\<rparr>\<rparr>
     = Inl (QueryRejected ''UNAVAILABLE'')"
  by (simp add: getChannels_def getUser_def get_prop_def)

section \<open>Properties of the video content service\<close>

subsection \<open>Document paths\<close>

lemma split_on_no_separator: "c \<notin> set s \<Longrightarrow> split_on c s = [s]"
  by (induction s) auto

lemma no_slash_no_double_slash: "CHR ''/'' \<notin> set s \<Longrightarrow> \<not> contains_double_slash s"
  by (induction s rule: contains_double_slash.induct) auto

lemma split_on_content:
  "split_on CHR ''/'' (''content/'' @ s) = ''content'' # split_on CHR ''/'' s"
  by simp

lemma double_slash_content:
  "contains_double_slash (''content/'' @ s) = contains_double_slash (CHR ''/'' # s)"
  by simp

text \<open>
  For an id that is not empty and has no slash, \<open>content/{id}\<close> is the path of
  the document as it stands.
\<close>

lemma doc_plain_id:
  assumes "id' \<noteq> []" and "CHR ''/'' \<notin> set id'"
  shows "doc (''content/'' @ id') = Inr (''content/'' @ id')"
proof -
  obtain x xs where id': "id' = x # xs"
    using assms(1) by (cases id') auto
  have "\<not> contains_double_slash id'"
    using assms(2) by (rule no_slash_no_double_slash)
  with assms(2) id' have nd: "\<not> contains_double_slash (''content/'' @ id')"
    unfolding double_slash_content by auto
  have sp: "segments (''content/'' @ id') = [''content'', id']"
    unfolding segments_def split_on_content using assms by (simp add: split_on_no_separator)
  have "join [''content'', id'] = ''content/'' @ id'"
    by simp
  with nd sp show ?thesis
    unfolding doc_def by (simp add: Let_def)
qed

lemma doc_content_id: "doc ''content/id'' = Inr ''content/id''"
  by (simp add: doc_def segments_def)

text \<open>The empty id gives no document path, and a trailing slash is dropped.\<close>

lemma doc_empty_id: "doc (''content/'' @ []) = Inl (FirestorePathError ''content/'')"
  by (simp add: doc_def segments_def)

lemma doc_trailing_slash: "doc (''content/'' @ ''v1/'') = Inr ''content/v1''"
  by (simp add: doc_def segments_def)

subsection \<open>The cases of getVideo and deleteVideo\<close>

lemma getVideo_invalid_path:
  "doc (''content/'' @ id') = Inl e \<Longrightarrow> getVideo db context id' = ([], Threw e)"
  by (simp add: getVideo_def)

lemma getVideo_missing:
  "doc (''content/'' @ id') = Inr path \<Longrightarrow> db path = None \<Longrightarrow>
   getVideo db context id' =
     ([FirestoreGet path],
      Threw (ResourceNotFoundError ''VideoContent'' ''videoContent'' id'))"
  by (simp add: getVideo_def)

lemma getVideo_present:
  "doc (''content/'' @ id') = Inr path \<Longrightarrow> db path = Some contentData \<Longrightarrow>
   getVideo db context id' =
     ([FirestoreGet path],
      Returned [''id'' \<mapsto> JString id',
                ''assetID'' \<mapsto> get_prop contentData ''assetID'',
                ''playbackID'' \<mapsto> get_prop contentData ''playbackID''])"
  by (simp add: getVideo_def)

lemma deleteVideo_invalid_path:
  "doc (''content/'' @ id') = Inl e \<Longrightarrow> deleteVideo env db context id' = ([], db, Threw e)"
  by (simp add: deleteVideo_def getVideo_invalid_path)

lemma deleteVideo_missing:
  "doc (''content/'' @ id') = Inr path \<Longrightarrow> db path = None \<Longrightarrow>
   deleteVideo env db context id' =
     ([FirestoreGet path], db,
      Threw (ResourceNotFoundError ''VideoContent'' ''videoContent'' id'))"
  by (simp add: deleteVideo_def getVideo_missing)

lemma deleteVideo_remote_fails:
  "doc (''content/'' @ id') = Inr path \<Longrightarrow> db path = Some contentData \<Longrightarrow>
   delete_result env = Some e \<Longrightarrow>
   deleteVideo env db context id' =
     ([FirestoreGet path,
       AxiosDelete (''https://api.mux.com/video/v1/assets/'' @ template (get_prop contentData ''assetID''))],
      db, Threw e)"
  by (simp add: deleteVideo_def getVideo_present get_prop_def)

lemma deleteVideo_completes:
  "doc (''content/'' @ id') = Inr path \<Longrightarrow> db path = Some contentData \<Longrightarrow>
   delete_result env = None \<Longrightarrow>
   deleteVideo env db context id' =
     ([FirestoreGet path,
       AxiosDelete (''https://api.mux.com/video/v1/assets/'' @ template (get_prop contentData ''assetID'')),
       FirestoreDelete ''content/id''],
      db(''content/id'' := None), Returned ())"
  by (simp add: deleteVideo_def getVideo_present get_prop_def doc_content_id)

text \<open>\<open>deleteVideo\<close> never reads its context: any two callers get the same result.\<close>

lemma deleteVideo_ignores_caller:
  "deleteVideo env db context1 id' = deleteVideo env db context2 id'"
  by (simp add: deleteVideo_def getVideo_def)

text \<open>
  The call ends in one of two ways: it throws, with the document database untouched
  and no document delete issued, or it completes, having fetched the record, deleted
  the remote asset and deleted the document \<open>content/id\<close>.
\<close>

lemma deleteVideo_outcomes:
  "(\<exists>calls e. deleteVideo env db context id' = (calls, db, Threw e)
       \<and> (\<forall>q. FirestoreDelete q \<notin> set calls))
   \<or> (\<exists>path contentData.
         doc (''content/'' @ id') = Inr path \<and> db path = Some contentData
         \<and> delete_result env = None
         \<and> deleteVideo env db context id' =
             ([FirestoreGet path,
               AxiosDelete (''https://api.mux.com/video/v1/assets/''
                              @ template (get_prop contentData ''assetID'')),
               FirestoreDelete ''content/id''],
              db(''content/id'' := None), Returned ()))"
proof (cases "doc (''content/'' @ id')")
  case (Inl e)
  then show ?thesis by (simp add: deleteVideo_invalid_path)
next
  case resolved: (Inr path)
  show ?thesis
  proof (cases "db path")
    case None
    with resolved show ?thesis by (simp add: deleteVideo_missing)
  next
    case present: (Some contentData)
    show ?thesis
    proof (cases "delete_result env")
      case None
      with resolved present show ?thesis by (simp add: deleteVideo_completes)
    next
      case (Some e)
      with resolved present show ?thesis by (simp add: deleteVideo_remote_fails)
    qed
  qed
qed

lemma deleteVideo_deletes_literal_only:
  "FirestoreDelete q \<in> set (fst (deleteVideo env db context id')) \<Longrightarrow> q = ''content/id''"
  using deleteVideo_outcomes [of env db "context" id'] by auto

lemma deleteVideo_frame:
  "q \<noteq> ''content/id'' \<Longrightarrow> fst (snd (deleteVideo env db context id')) q = db q"
  using deleteVideo_outcomes [of env db "context" id'] by auto

lemma deleteVideo_deletes_literal:
  "doc (''content/'' @ id') = Inr path \<Longrightarrow> db path \<noteq> None \<Longrightarrow> delete_result env = None \<Longrightarrow>
   FirestoreDelete ''content/id'' \<in> set (fst (deleteVideo env db context id'))
   \<and> fst (snd (deleteVideo env db context id')) = db(''content/id'' := None)"
  by (auto simp add: deleteVideo_completes)

text \<open>With the empty id, \<open>doc\<close> throws before anything is read.\<close>

lemma deleteVideo_empty_id:
  "deleteVideo env db context [] = ([], db, Threw (FirestorePathError ''content/''))"
  using deleteVideo_invalid_path [OF doc_empty_id] by simp

subsection \<open>The promise of promisePiper\<close>

lemma fold_on_event:
  "fold on_event evs p = (if p = Pending \<and> Finish \<in> set evs then Fulfilled else p)"
proof (induction evs arbitrary: p)
  case Nil
  show ?case by simp
next
  case (Cons ev evs)
  show ?case
    by (cases ev; cases p) (simp_all add: Cons.IH resolve_def)
qed

lemma promisePiper_state:
  "promisePiper readStream writeStream = (if Finish \<in> set writeStream then Fulfilled else Pending)"
  by (simp add: promisePiper_def fold_on_event)

subsection \<open>The cases of uploadVideo\<close>

lemma uploadVideo_lookup_fails:
  "VideoDataService_getVideo env context id' = Inl e \<Longrightarrow>
   uploadVideo env context id' fileStream mime = ([VideoDataGet id'], Threw e)"
  by (simp add: uploadVideo_def)

lemma uploadVideo_not_author:
  "VideoDataService_getVideo env context id' = Inr video \<Longrightarrow>
   get_prop video ''author'' \<noteq> JString (userID (auth context)) \<Longrightarrow>
   uploadVideo env context id' fileStream mime =
     ([VideoDataGet id'], Threw (AuthorizationError ''VideoContent'' ''upload video data''))"
  by (auto simp add: uploadVideo_def)

lemma uploadVideo_copy_pending:
  "VideoDataService_getVideo env context id' = Inr video \<Longrightarrow>
   get_prop video ''author'' = JString (userID (auth context)) \<Longrightarrow>
   Finish \<notin> set (writeStream_events env) \<Longrightarrow>
   uploadVideo env context id' fileStream mime =
     ([VideoDataGet id', StorageWrite (''masters/'' @ userID (auth context) @ ''/'' @ id') mime],
      NeverSettles)"
  by (simp add: uploadVideo_def promisePiper_state Let_def)

lemma uploadVideo_makePublic_fails:
  "VideoDataService_getVideo env context id' = Inr video \<Longrightarrow>
   get_prop video ''author'' = JString (userID (auth context)) \<Longrightarrow>
   Finish \<in> set (writeStream_events env) \<Longrightarrow>
   makePublic_result env = Some e \<Longrightarrow>
   uploadVideo env context id' fileStream mime =
     ([VideoDataGet id', StorageWrite (''masters/'' @ userID (auth context) @ ''/'' @ id') mime,
       MakePublic (''masters/'' @ userID (auth context) @ ''/'' @ id')],
      Threw e)"
  by (simp add: uploadVideo_def promisePiper_state Let_def)

lemma uploadVideo_posts:
  "VideoDataService_getVideo env context id' = Inr video \<Longrightarrow>
   get_prop video ''author'' = JString (userID (auth context)) \<Longrightarrow>
   Finish \<in> set (writeStream_events env) \<Longrightarrow>
   makePublic_result env = None \<Longrightarrow>
   uploadVideo env context id' fileStream mime =
     ([VideoDataGet id', StorageWrite (''masters/'' @ userID (auth context) @ ''/'' @ id') mime,
       MakePublic (''masters/'' @ userID (auth context) @ ''/'' @ id'),
       AxiosPost ''https://api.mux.com/video/v1/assets''
         \<lparr>input = ''https://storage.googleapis.com/meteor-videos/''
                     @ ''masters/'' @ userID (auth context) @ ''/'' @ id',
          playback_policy = [''public''],
          passthrough = id'\<rparr>],
      (case post_result env of None \<Rightarrow> Returned () | Some e \<Rightarrow> Threw e))"
  by (simp add: uploadVideo_def promisePiper_state Let_def split: option.splits)

text \<open>
  In \<open>uploadVideo\<close> every mutation comes after the ownership check has passed: a
  call that issues one was made by the author of the video.
\<close>

lemma uploadVideo_mutation_needs_author:
  assumes "e \<in> set (fst (uploadVideo env context id' fileStream mime))"
      and "is_mutation e"
  shows "\<exists>video. VideoDataService_getVideo env context id' = Inr video
           \<and> get_prop video ''author'' = JString (userID (auth context))"
proof (cases "VideoDataService_getVideo env context id'")
  case (Inl err)
  with assms show ?thesis by (auto simp add: uploadVideo_lookup_fails)
next
  case (Inr video)
  show ?thesis
  proof (cases "get_prop video ''author'' = JString (userID (auth context))")
    case True
    with Inr show ?thesis by simp
  next
    case False
    with Inr assms show ?thesis by (auto simp add: uploadVideo_not_author)
  qed
qed

subsection \<open>Authorization before mutation\<close>

text \<open>
  Claim C3. When \<open>VideoDataService.getVideo\<close> returns the video and its author is
  not the caller, \<open>uploadVideo\<close> throws \<open>AuthorizationError\<close>; the only call it
  has issued is the lookup of the video, so nothing is written to storage, no object is
  made public and the transcoder is not called.
\<close>

theorem uploadVideo_rejects_non_author:
  assumes "VideoDataService_getVideo env context id' = Inr video"
      and "get_prop video ''author'' \<noteq> JString (userID (auth context))"
  shows "uploadVideo env context id' fileStream mime =
           ([VideoDataGet id'], Threw (AuthorizationError ''VideoContent'' ''upload video data''))
         \<and> filter is_mutation (fst (uploadVideo env context id' fileStream mime)) = []"
  using assms by (simp add: uploadVideo_not_author)

theorem uploadVideo_rejects_non_author_witness:
  "VideoDataService_getVideo
     \<lparr>VideoDataService_getVideo = (\<lambda>c i. Inr [''author'' \<mapsto> JString ''alice'']),
      writeStream_events = [Pipe, Finish, Close],
      makePublic_result = None, post_result = None, delete_result = None\<rparr>
     \<lparr>auth = \<lparr>userID = ''mallory''\<rparr>\<rparr> ''v1'' = Inr [''author'' \<mapsto> JString ''alice'']
   \<and> get_prop [''author'' \<mapsto> JString ''alice''] ''author'' \<noteq> JString (userID (auth \<lparr>auth = \<lparr>userID = ''mallory''\<rparr>\<rparr>))
   \<and> uploadVideo
     \<lparr>VideoDataService_getVideo = (\<lambda>c i. Inr [''author'' \<mapsto> JString ''alice'']),
      writeStream_events = [Pipe, Finish, Close],
      makePublic_result = None, post_result = None, delete_result = None\<rparr>
     \<lparr>auth = \<lparr>userID = ''mallory''\<rparr>\<rparr> ''v1'' ''bytes'' ''video/mp4''
     = ([VideoDataGet ''v1''], Threw (AuthorizationError ''VideoContent'' ''upload video data''))"
proof -
  let ?env = "\<lparr>VideoDataService_getVideo = (\<lambda>c i. Inr [''author'' \<mapsto> JString ''alice'']),
      writeStream_events = [Pipe, Finish, Close],
      makePublic_result = None, post_result = None, delete_result = None\<rparr>"
  let ?caller = "\<lparr>auth = \<lparr>userID = ''mallory''\<rparr>\<rparr>"
  have h1: "VideoDataService_getVideo ?env ?caller ''v1'' = Inr [''author'' \<mapsto> JString ''alice'']"
    by simp
  have h2: "get_prop [''author'' \<mapsto> JString ''alice''] ''author'' \<noteq> JString (userID (auth ?caller))"
    by (simp add: get_prop_def)
  from uploadVideo_rejects_non_author [OF h1 h2, of "''bytes''" "''video/mp4''"] h1 h2
  show ?thesis by simp
qed

text \<open>
  Claim C1 at a caller who is not the author. The video data service names
  \<open>alice\<close> as the author of \<open>v1\<close>; the caller is \<open>mallory\<close>.
  \<open>deleteVideo\<close> makes no authorization check (see \<open>deleteVideo_ignores_caller\<close>):
  it deletes the remote asset and issues the document delete.
\<close>

theorem deleteVideo_unauthorized_caller:
  "deleteVideo
     \<lparr>VideoDataService_getVideo = (\<lambda>c i. Inr [''author'' \<mapsto> JString ''alice'']),
      writeStream_events = [Pipe, Finish, Close],
      makePublic_result = None, post_result = None, delete_result = None\<rparr>
     [''content/v1'' \<mapsto> [''assetID'' \<mapsto> JString ''a1'', ''playbackID'' \<mapsto> JString ''p1'']]
     \<lparr>auth = \<lparr>userID = ''mallory''\<rparr>\<rparr> ''v1''
   = ([FirestoreGet ''content/v1'',
       AxiosDelete ''https://api.mux.com/video/v1/assets/a1'',
       FirestoreDelete ''content/id''],
      [''content/v1'' \<mapsto> [''assetID'' \<mapsto> JString ''a1'', ''playbackID'' \<mapsto> JString ''p1'']](''content/id'' := None),
      Returned ())"
  by (simp add: deleteVideo_def getVideo_def doc_def segments_def get_prop_def)

subsection \<open>Records that do not exist\<close>

text \<open>
  Claim C4. When \<open>content/{id}\<close> is the path of a document and no document exists
  there, \<open>getVideo\<close> throws \<open>ResourceNotFoundError\<close> and returns no record;
  \<open>deleteVideo\<close> throws the same error after the fetch alone and leaves the
  document database as it was. By \<open>doc_plain_id\<close> this covers every id that is not
  empty and has no slash; an id for which \<open>content/{id}\<close> is no document path
  makes both functions throw the client's error before any read
  (\<open>getVideo_invalid_path\<close>, \<open>deleteVideo_invalid_path\<close>).
\<close>

theorem getVideo_not_found:
  assumes "doc (''content/'' @ id') = Inr path"
      and "db path = None"
  shows "getVideo db context id' =
           ([FirestoreGet path],
            Threw (ResourceNotFoundError ''VideoContent'' ''videoContent'' id'))
         \<and> deleteVideo env db context id' =
           ([FirestoreGet path], db,
            Threw (ResourceNotFoundError ''VideoContent'' ''videoContent'' id'))"
  using assms by (simp add: getVideo_missing deleteVideo_missing)

theorem getVideo_not_found_witness:
  "doc (''content/'' @ ''v2'') = Inr ''content/v2''
   \<and> [''content/v1'' \<mapsto> [''assetID'' \<mapsto> JString ''a1'', ''playbackID'' \<mapsto> JString ''p1'']] ''content/v2'' = None
   \<and> getVideo [''content/v1'' \<mapsto> [''assetID'' \<mapsto> JString ''a1'', ''playbackID'' \<mapsto> JString ''p1'']]
        \<lparr>auth = \<lparr>userID = ''alice''\<rparr>\<rparr> ''v2''
     = ([FirestoreGet ''content/v2''], Threw (ResourceNotFoundError ''VideoContent'' ''videoContent'' ''v2''))
   \<and> snd (snd (deleteVideo
        \<lparr>VideoDataService_getVideo = (\<lambda>c i. Inr [''author'' \<mapsto> JString ''alice'']),
      writeStream_events = [Pipe, Finish, Close],
      makePublic_result = None, post_result = None, delete_result = None\<rparr>
        [''content/v1'' \<mapsto> [''assetID'' \<mapsto> JString ''a1'', ''playbackID'' \<mapsto> JString ''p1'']]
        \<lparr>auth = \<lparr>userID = ''alice''\<rparr>\<rparr> ''v2''))
     = Threw (ResourceNotFoundError ''VideoContent'' ''videoContent'' ''v2'')"
proof -
  have h1: "doc (''content/'' @ ''v2'') = Inr ''content/v2''"
    by (simp add: doc_def segments_def)
  have h2: "[''content/v1'' \<mapsto> [''assetID'' \<mapsto> JString ''a1'', ''playbackID'' \<mapsto> JString ''p1'']] ''content/v2'' = None"
    by simp
  from getVideo_not_found [of "''v2''" "''content/v2''" "[''content/v1'' \<mapsto> [''assetID'' \<mapsto> JString ''a1'', ''playbackID'' \<mapsto> JString ''p1'']]"
         "\<lparr>auth = \<lparr>userID = ''alice''\<rparr>\<rparr>"
         "\<lparr>VideoDataService_getVideo = (\<lambda>c i. Inr [''author'' \<mapsto> JString ''alice'']),
      writeStream_events = [Pipe, Finish, Close],
      makePublic_result = None, post_result = None, delete_result = None\<rparr>"] h1 h2
  show ?thesis by simp
qed

subsection \<open>The record getVideo returns\<close>

text \<open>
  Claim C8, as amended. For an id whose document exists, \<open>getVideo\<close> returns an
  object with exactly the fields \<open>id\<close>, \<open>assetID\<close> and \<open>playbackID\<close>:
  \<open>id\<close> is the requested id, the other two are read from the document. It has no
  \<open>author\<close> field.
\<close>

theorem getVideo_fields:
  assumes "doc (''content/'' @ id') = Inr path"
      and "db path = Some contentData"
  shows "\<exists>r. snd (getVideo db context id') = Returned r
           \<and> dom r = {''id'', ''assetID'', ''playbackID''}
           \<and> r ''id'' = Some (JString id')
           \<and> r ''assetID'' = Some (get_prop contentData ''assetID'')
           \<and> r ''playbackID'' = Some (get_prop contentData ''playbackID'')
           \<and> r ''author'' = None"
  using assms by (auto simp add: getVideo_present)

theorem getVideo_fields_witness:
  "doc (''content/'' @ ''v1'') = Inr ''content/v1''
   \<and> [''content/v1'' \<mapsto> [''assetID'' \<mapsto> JString ''a1'', ''playbackID'' \<mapsto> JString ''p1'']] ''content/v1''
     = Some [''assetID'' \<mapsto> JString ''a1'', ''playbackID'' \<mapsto> JString ''p1'']
   \<and> snd (getVideo [''content/v1'' \<mapsto> [''assetID'' \<mapsto> JString ''a1'', ''playbackID'' \<mapsto> JString ''p1'']]
        \<lparr>auth = \<lparr>userID = ''alice''\<rparr>\<rparr> ''v1'')
     = Returned [''id'' \<mapsto> JString ''v1'', ''assetID'' \<mapsto> JString ''a1'', ''playbackID'' \<mapsto> JString ''p1'']"
proof -
  have h1: "doc (''content/'' @ ''v1'') = Inr ''content/v1''"
    by (simp add: doc_def segments_def)
  have h2: "[''content/v1'' \<mapsto> [''assetID'' \<mapsto> JString ''a1'', ''playbackID'' \<mapsto> JString ''p1'']] ''content/v1''
     = Some [''assetID'' \<mapsto> JString ''a1'', ''playbackID'' \<mapsto> JString ''p1'']"
    by simp
  from getVideo_fields [of "''v1''" "''content/v1''" "[''content/v1'' \<mapsto> [''assetID'' \<mapsto> JString ''a1'', ''playbackID'' \<mapsto> JString ''p1'']]"
         "[''assetID'' \<mapsto> JString ''a1'', ''playbackID'' \<mapsto> JString ''p1'']"
         "\<lparr>auth = \<lparr>userID = ''alice''\<rparr>\<rparr>"] h1 h2
  obtain r where r: "snd (getVideo [''content/v1'' \<mapsto> [''assetID'' \<mapsto> JString ''a1'', ''playbackID'' \<mapsto> JString ''p1'']]
        \<lparr>auth = \<lparr>userID = ''alice''\<rparr>\<rparr> ''v1'') = Returned r"
    by blast
  have "snd (getVideo [''content/v1'' \<mapsto> [''assetID'' \<mapsto> JString ''a1'', ''playbackID'' \<mapsto> JString ''p1'']]
        \<lparr>auth = \<lparr>userID = ''alice''\<rparr>\<rparr> ''v1'')
     = Returned [''id'' \<mapsto> JString ''v1'', ''assetID'' \<mapsto> JString ''a1'', ''playbackID'' \<mapsto> JString ''p1'']"
    by (simp add: getVideo_def doc_def segments_def get_prop_def)
  with r have "r = [''id'' \<mapsto> JString ''v1'', ''assetID'' \<mapsto> JString ''a1'', ''playbackID'' \<mapsto> JString ''p1'']"
    by simp
  with r have "snd (getVideo [''content/v1'' \<mapsto> [''assetID'' \<mapsto> JString ''a1'', ''playbackID'' \<mapsto> JString ''p1'']]
        \<lparr>auth = \<lparr>userID = ''alice''\<rparr>\<rparr> ''v1'')
     = Returned [''id'' \<mapsto> JString ''v1'', ''assetID'' \<mapsto> JString ''a1'', ''playbackID'' \<mapsto> JString ''p1'']"
    by simp
  with h1 h2 show ?thesis by (intro conjI)
qed

text \<open>
  The claim as stated fails: even when the stored document has an \<open>author\<close>
  field, the object \<open>getVideo\<close> returns has none.
\<close>

theorem getVideo_no_author:
  "snd (getVideo
          [''content/v1'' \<mapsto> [''assetID'' \<mapsto> JString ''a1'', ''playbackID'' \<mapsto> JString ''p1'',
                                ''author'' \<mapsto> JString ''alice'']]
          \<lparr>auth = \<lparr>userID = ''alice''\<rparr>\<rparr> ''v1'')
     = Returned [''id'' \<mapsto> JString ''v1'', ''assetID'' \<mapsto> JString ''a1'', ''playbackID'' \<mapsto> JString ''p1'']
   \<and> [''id'' \<mapsto> JString ''v1'', ''assetID'' \<mapsto> JString ''a1'', ''playbackID'' \<mapsto> JString ''p1'']
        ''author'' = None"
  by (simp add: getVideo_def doc_def segments_def get_prop_def)

subsection \<open>What deleteVideo deletes\<close>

text \<open>
  Claim C9, as amended. The only document path \<open>deleteVideo\<close> ever deletes is the
  literal \<open>content/id\<close>, whatever the id argument, and it does delete it when the
  record exists and the remote delete succeeds. Every other document is the same after
  the call as before; so the content record that \<open>content/{id}\<close> refers to is
  unchanged whenever that document is not \<open>content/id\<close>, which is the case for
  every id other than \<open>id\<close> that is not empty and has no slash.
\<close>

theorem deleteVideo_literal_path:
  "(FirestoreDelete p \<in> set (fst (deleteVideo env db context id')) \<longrightarrow> p = ''content/id'')
   \<and> (doc (''content/'' @ id') = Inr path \<and> db path \<noteq> None \<and> delete_result env = None \<longrightarrow>
        FirestoreDelete ''content/id'' \<in> set (fst (deleteVideo env db context id'))
        \<and> fst (snd (deleteVideo env db context id')) = db(''content/id'' := None))
   \<and> (doc (''content/'' @ id') = Inr path \<and> path \<noteq> ''content/id'' \<longrightarrow>
        fst (snd (deleteVideo env db context id')) path = db path)
   \<and> (id' \<noteq> [] \<and> CHR ''/'' \<notin> set id' \<and> id' \<noteq> ''id'' \<longrightarrow>
        doc (''content/'' @ id') = Inr (''content/'' @ id')
        \<and> fst (snd (deleteVideo env db context id')) (''content/'' @ id') = db (''content/'' @ id'))
   \<and> (q \<noteq> ''content/id'' \<longrightarrow> fst (snd (deleteVideo env db context id')) q = db q)"
proof -
  have "id' \<noteq> [] \<and> CHR ''/'' \<notin> set id' \<and> id' \<noteq> ''id'' \<longrightarrow>
        doc (''content/'' @ id') = Inr (''content/'' @ id')
        \<and> fst (snd (deleteVideo env db context id')) (''content/'' @ id') = db (''content/'' @ id')"
  proof (intro impI conjI)
    assume plain: "id' \<noteq> [] \<and> CHR ''/'' \<notin> set id' \<and> id' \<noteq> ''id''"
    then show "doc (''content/'' @ id') = Inr (''content/'' @ id')"
      by (intro doc_plain_id) simp_all
    from plain have "''content/'' @ id' \<noteq> ''content/id''"
      by simp
    then show "fst (snd (deleteVideo env db context id')) (''content/'' @ id') = db (''content/'' @ id')"
      by (rule deleteVideo_frame)
  qed
  with deleteVideo_deletes_literal_only [of p env db "context" id']
       deleteVideo_deletes_literal [of id' path db env "context"]
       deleteVideo_frame [of path env db "context" id']
       deleteVideo_frame [of q env db "context" id']
  show ?thesis by blast
qed

theorem deleteVideo_literal_path_witness:
  "doc (''content/'' @ ''v1'') = Inr ''content/v1''
   \<and> [''content/v1'' \<mapsto> [''assetID'' \<mapsto> JString ''a1'', ''playbackID'' \<mapsto> JString ''p1'']] ''content/v1'' \<noteq> None
   \<and> delete_result
      \<lparr>VideoDataService_getVideo = (\<lambda>c i. Inr [''author'' \<mapsto> JString ''alice'']),
      writeStream_events = [Pipe, Finish, Close],
      makePublic_result = None, post_result = None, delete_result = None\<rparr> = None
   \<and> ''content/v1'' \<noteq> ''content/id''
   \<and> FirestoreDelete ''content/id'' \<in> set (fst (deleteVideo
      \<lparr>VideoDataService_getVideo = (\<lambda>c i. Inr [''author'' \<mapsto> JString ''alice'']),
      writeStream_events = [Pipe, Finish, Close],
      makePublic_result = None, post_result = None, delete_result = None\<rparr>
      [''content/v1'' \<mapsto> [''assetID'' \<mapsto> JString ''a1'', ''playbackID'' \<mapsto> JString ''p1'']]
      \<lparr>auth = \<lparr>userID = ''alice''\<rparr>\<rparr> ''v1''))
   \<and> fst (snd (deleteVideo
      \<lparr>VideoDataService_getVideo = (\<lambda>c i. Inr [''author'' \<mapsto> JString ''alice'']),
      writeStream_events = [Pipe, Finish, Close],
      makePublic_result = None, post_result = None, delete_result = None\<rparr>
      [''content/v1'' \<mapsto> [''assetID'' \<mapsto> JString ''a1'', ''playbackID'' \<mapsto> JString ''p1'']]
      \<lparr>auth = \<lparr>userID = ''alice''\<rparr>\<rparr> ''v1'')) ''content/v1''
     = [''content/v1'' \<mapsto> [''assetID'' \<mapsto> JString ''a1'', ''playbackID'' \<mapsto> JString ''p1'']] ''content/v1''"
proof -
  let ?env = "\<lparr>VideoDataService_getVideo = (\<lambda>c i. Inr [''author'' \<mapsto> JString ''alice'']),
      writeStream_events = [Pipe, Finish, Close],
      makePublic_result = None, post_result = None, delete_result = None\<rparr>"
  let ?db = "[''content/v1'' \<mapsto> [''assetID'' \<mapsto> JString ''a1'', ''playbackID'' \<mapsto> JString ''p1'']]"
  let ?caller = "\<lparr>auth = \<lparr>userID = ''alice''\<rparr>\<rparr>"
  have h1: "doc (''content/'' @ ''v1'') = Inr ''content/v1''"
    by (simp add: doc_def segments_def)
  have h2: "?db ''content/v1'' \<noteq> None"
    by simp
  have h3: "delete_result ?env = None"
    by simp
  have h4: "''content/v1'' \<noteq> ''content/id''"
    by simp
  from deleteVideo_literal_path [of "''content/id''" ?env ?db ?caller "''v1''" "''content/v1''"] h1 h2 h3 h4
  have "FirestoreDelete ''content/id'' \<in> set (fst (deleteVideo ?env ?db ?caller ''v1''))"
   and "fst (snd (deleteVideo ?env ?db ?caller ''v1'')) ''content/v1'' = ?db ''content/v1''"
    by blast+
  with h1 h2 h3 h4 show ?thesis by (intro conjI)
qed

text \<open>
  The claim as stated fails at the id \<open>id/\<close>, which is not the string \<open>id\<close>:
  the client drops the trailing slash, so the record fetched is the document
  \<open>content/id\<close>, and the local delete removes exactly that record.
\<close>

theorem deleteVideo_trailing_slash:
  "''id/'' \<noteq> ''id''
   \<and> doc (''content/'' @ ''id/'') = Inr ''content/id''
   \<and> deleteVideo
      \<lparr>VideoDataService_getVideo = (\<lambda>c i. Inr [''author'' \<mapsto> JString ''alice'']),
      writeStream_events = [Pipe, Finish, Close],
      makePublic_result = None, post_result = None, delete_result = None\<rparr>
      [''content/id'' \<mapsto> [''assetID'' \<mapsto> JString ''a1'', ''playbackID'' \<mapsto> JString ''p1'']]
      \<lparr>auth = \<lparr>userID = ''alice''\<rparr>\<rparr> ''id/''
     = ([FirestoreGet ''content/id'',
         AxiosDelete ''https://api.mux.com/video/v1/assets/a1'',
         FirestoreDelete ''content/id''],
        [''content/id'' \<mapsto> [''assetID'' \<mapsto> JString ''a1'', ''playbackID'' \<mapsto> JString ''p1'']](''content/id'' := None),
        Returned ())
   \<and> ([''content/id'' \<mapsto> [''assetID'' \<mapsto> JString ''a1'', ''playbackID'' \<mapsto> JString ''p1'']](''content/id'' := None)) ''content/id'' = None"
proof -
  have h1: "doc (''content/'' @ ''id/'') = Inr ''content/id''"
    by (simp add: doc_def segments_def)
  have "deleteVideo
      \<lparr>VideoDataService_getVideo = (\<lambda>c i. Inr [''author'' \<mapsto> JString ''alice'']),
      writeStream_events = [Pipe, Finish, Close],
      makePublic_result = None, post_result = None, delete_result = None\<rparr>
      [''content/id'' \<mapsto> [''assetID'' \<mapsto> JString ''a1'', ''playbackID'' \<mapsto> JString ''p1'']]
      \<lparr>auth = \<lparr>userID = ''alice''\<rparr>\<rparr> ''id/''
     = ([FirestoreGet ''content/id'',
         AxiosDelete ''https://api.mux.com/video/v1/assets/a1'',
         FirestoreDelete ''content/id''],
        [''content/id'' \<mapsto> [''assetID'' \<mapsto> JString ''a1'', ''playbackID'' \<mapsto> JString ''p1'']](''content/id'' := None),
        Returned ())"
    by (simp add: deleteVideo_def getVideo_def doc_def segments_def get_prop_def)
  with h1 show ?thesis by simp
qed

text \<open>
  Claim C2 at an existing record. The fetch, the remote delete of asset \<open>a1\<close> and a
  document delete are issued in this order and the call returns, but the document
  delete names \<open>content/id\<close>: the content record of \<open>v1\<close> is still there
  afterwards.
\<close>

theorem deleteVideo_record_survives:
  "fst (deleteVideo
     \<lparr>VideoDataService_getVideo = (\<lambda>c i. Inr [''author'' \<mapsto> JString ''alice'']),
      writeStream_events = [Pipe, Finish, Close],
      makePublic_result = None, post_result = None, delete_result = None\<rparr>
     [''content/v1'' \<mapsto> [''assetID'' \<mapsto> JString ''a1'', ''playbackID'' \<mapsto> JString ''p1'']]
     \<lparr>auth = \<lparr>userID = ''alice''\<rparr>\<rparr> ''v1'')
     = [FirestoreGet ''content/v1'',
        AxiosDelete ''https://api.mux.com/video/v1/assets/a1'',
        FirestoreDelete ''content/id'']
   \<and> snd (snd (deleteVideo
     \<lparr>VideoDataService_getVideo = (\<lambda>c i. Inr [''author'' \<mapsto> JString ''alice'']),
      writeStream_events = [Pipe, Finish, Close],
      makePublic_result = None, post_result = None, delete_result = None\<rparr>
     [''content/v1'' \<mapsto> [''assetID'' \<mapsto> JString ''a1'', ''playbackID'' \<mapsto> JString ''p1'']]
     \<lparr>auth = \<lparr>userID = ''alice''\<rparr>\<rparr> ''v1'')) = Returned ()
   \<and> fst (snd (deleteVideo
     \<lparr>VideoDataService_getVideo = (\<lambda>c i. Inr [''author'' \<mapsto> JString ''alice'']),
      writeStream_events = [Pipe, Finish, Close],
      makePublic_result = None, post_result = None, delete_result = None\<rparr>
     [''content/v1'' \<mapsto> [''assetID'' \<mapsto> JString ''a1'', ''playbackID'' \<mapsto> JString ''p1'']]
     \<lparr>auth = \<lparr>userID = ''alice''\<rparr>\<rparr> ''v1'')) ''content/v1''
     = Some [''assetID'' \<mapsto> JString ''a1'', ''playbackID'' \<mapsto> JString ''p1'']"
  by (simp add: deleteVideo_def getVideo_def doc_def segments_def get_prop_def)

subsection \<open>The upload sequence\<close>

text \<open>
  Claim C6, as amended. In a call by the author of the video the calls are issued in
  the order ownership check, copy to object storage, make public, POST to the
  transcoder, each one only when the one before it has completed: the copy is always
  started, the object is made public only when the write stream has finished, and the
  POST is issued only when \<open>makePublic\<close> has resolved. When both have completed, the
  calls are exactly this sequence. There is never more than one transcoder call, and
  the POST names the stored object and carries the id.
\<close>

theorem uploadVideo_sequence:
  assumes "VideoDataService_getVideo env context id' = Inr video"
      and "get_prop video ''author'' = JString (userID (auth context))"
  shows "fst (uploadVideo env context id' fileStream mime) =
           VideoDataGet id' #
           StorageWrite (''masters/'' @ userID (auth context) @ ''/'' @ id') mime #
           (if Finish \<in> set (writeStream_events env)
            then MakePublic (''masters/'' @ userID (auth context) @ ''/'' @ id') #
              (if makePublic_result env = None
               then [AxiosPost ''https://api.mux.com/video/v1/assets''
                       \<lparr>input = ''https://storage.googleapis.com/meteor-videos/''
                                   @ ''masters/'' @ userID (auth context) @ ''/'' @ id',
                        playback_policy = [''public''],
                        passthrough = id'\<rparr>]
               else [])
            else [])
         \<and> length (filter is_transcoder_call (fst (uploadVideo env context id' fileStream mime))) \<le> 1"
proof (cases "Finish \<in> set (writeStream_events env)")
  case False
  with assms show ?thesis by (simp add: uploadVideo_copy_pending)
next
  case finished: True
  show ?thesis
  proof (cases "makePublic_result env")
    case None
    with assms finished show ?thesis by (simp add: uploadVideo_posts)
  next
    case (Some e)
    with assms finished show ?thesis by (simp add: uploadVideo_makePublic_fails)
  qed
qed

theorem uploadVideo_sequence_witness:
  "VideoDataService_getVideo
     \<lparr>VideoDataService_getVideo = (\<lambda>c i. Inr [''author'' \<mapsto> JString ''alice'']),
      writeStream_events = [Pipe, Finish, Close],
      makePublic_result = None, post_result = None, delete_result = None\<rparr>
     \<lparr>auth = \<lparr>userID = ''alice''\<rparr>\<rparr> ''v1'' = Inr [''author'' \<mapsto> JString ''alice'']
   \<and> get_prop [''author'' \<mapsto> JString ''alice''] ''author'' = JString (userID (auth \<lparr>auth = \<lparr>userID = ''alice''\<rparr>\<rparr>))
   \<and> fst (uploadVideo
     \<lparr>VideoDataService_getVideo = (\<lambda>c i. Inr [''author'' \<mapsto> JString ''alice'']),
      writeStream_events = [Pipe, Finish, Close],
      makePublic_result = None, post_result = None, delete_result = None\<rparr>
     \<lparr>auth = \<lparr>userID = ''alice''\<rparr>\<rparr> ''v1'' ''bytes'' ''video/mp4'')
     = [VideoDataGet ''v1'',
        StorageWrite ''masters/alice/v1'' ''video/mp4'',
        MakePublic ''masters/alice/v1'',
        AxiosPost ''https://api.mux.com/video/v1/assets''
          \<lparr>input = ''https://storage.googleapis.com/meteor-videos/masters/alice/v1'',
           playback_policy = [''public''],
           passthrough = ''v1''\<rparr>]"
proof -
  let ?env = "\<lparr>VideoDataService_getVideo = (\<lambda>c i. Inr [''author'' \<mapsto> JString ''alice'']),
      writeStream_events = [Pipe, Finish, Close],
      makePublic_result = None, post_result = None, delete_result = None\<rparr>"
  let ?caller = "\<lparr>auth = \<lparr>userID = ''alice''\<rparr>\<rparr>"
  have h1: "VideoDataService_getVideo ?env ?caller ''v1'' = Inr [''author'' \<mapsto> JString ''alice'']"
    by simp
  have h2: "get_prop [''author'' \<mapsto> JString ''alice''] ''author'' = JString (userID (auth ?caller))"
    by (simp add: get_prop_def)
  from uploadVideo_sequence [OF h1 h2, of "''bytes''" "''video/mp4''"] h1 h2
  show ?thesis by simp
qed

text \<open>
  The claim as stated fails: in a call by the author in which \<open>makePublic\<close> rejects,
  the rejection ends the call and the transcoder is never called.
\<close>

theorem uploadVideo_stops_at_makePublic:
  "uploadVideo
     \<lparr>VideoDataService_getVideo = (\<lambda>c i. Inr [''author'' \<mapsto> JString ''alice'']),
      writeStream_events = [Pipe, Finish, Close],
      makePublic_result = Some (ServiceFailure ''makePublic''), post_result = None, delete_result = None\<rparr>
     \<lparr>auth = \<lparr>userID = ''alice''\<rparr>\<rparr> ''v1'' ''bytes'' ''video/mp4''
   = ([VideoDataGet ''v1'', StorageWrite ''masters/alice/v1'' ''video/mp4'',
       MakePublic ''masters/alice/v1''],
      Threw (ServiceFailure ''makePublic''))
   \<and> filter is_transcoder_call (fst (uploadVideo
     \<lparr>VideoDataService_getVideo = (\<lambda>c i. Inr [''author'' \<mapsto> JString ''alice'']),
      writeStream_events = [Pipe, Finish, Close],
      makePublic_result = Some (ServiceFailure ''makePublic''), post_result = None, delete_result = None\<rparr>
     \<lparr>auth = \<lparr>userID = ''alice''\<rparr>\<rparr> ''v1'' ''bytes'' ''video/mp4'')) = []"
  by (simp add: uploadVideo_makePublic_fails get_prop_def)

subsection \<open>The copy step\<close>

text \<open>
  Claim C10. Whatever the write stream emits, the promise of \<open>promisePiper\<close> is
  never rejected, and it is fulfilled exactly when \<open>finish\<close> is among the events.
  So the copy step of \<open>uploadVideo\<close> has no error outcome: a call whose last issued
  call is the storage write has not thrown, it never settles.
\<close>

theorem promisePiper_never_rejects:
  "promisePiper readStream writeStream \<noteq> Rejected e
   \<and> (promisePiper readStream writeStream = Fulfilled \<longleftrightarrow> Finish \<in> set writeStream)
   \<and> (fst (uploadVideo env context id' fileStream mime) = calls @ [StorageWrite path mime']
        \<longrightarrow> snd (uploadVideo env context id' fileStream mime) = NeverSettles)"
  by (auto simp add: promisePiper_state uploadVideo_def Let_def
           split: sum.splits option.splits if_splits)

theorem promisePiper_never_rejects_witness:
  "promisePiper ''bytes'' [Pipe, Error ''socket hang up'', Close] \<noteq> Rejected ''socket hang up''
   \<and> promisePiper ''bytes'' [Pipe, Error ''socket hang up'', Close] \<noteq> Fulfilled
   \<and> fst (uploadVideo
        \<lparr>VideoDataService_getVideo = (\<lambda>c i. Inr [''author'' \<mapsto> JString ''alice'']),
      writeStream_events = [Pipe, Error ''socket hang up'', Close],
      makePublic_result = None, post_result = None, delete_result = None\<rparr>
        \<lparr>auth = \<lparr>userID = ''alice''\<rparr>\<rparr> ''v1'' ''bytes'' ''video/mp4'')
     = [VideoDataGet ''v1''] @ [StorageWrite ''masters/alice/v1'' ''video/mp4'']
   \<and> snd (uploadVideo
        \<lparr>VideoDataService_getVideo = (\<lambda>c i. Inr [''author'' \<mapsto> JString ''alice'']),
      writeStream_events = [Pipe, Error ''socket hang up'', Close],
      makePublic_result = None, post_result = None, delete_result = None\<rparr>
        \<lparr>auth = \<lparr>userID = ''alice''\<rparr>\<rparr> ''v1'' ''bytes'' ''video/mp4'')
     = NeverSettles"
  using promisePiper_never_rejects [of "''bytes''" "[Pipe, Error ''socket hang up'', Close]"
          "''socket hang up''"
          "\<lparr>VideoDataService_getVideo = (\<lambda>c i. Inr [''author'' \<mapsto> JString ''alice'']),
      writeStream_events = [Pipe, Error ''socket hang up'', Close],
      makePublic_result = None, post_result = None, delete_result = None\<rparr>"
          "\<lparr>auth = \<lparr>userID = ''alice''\<rparr>\<rparr>" "''v1''" "''bytes''" "''video/mp4''"
          "[VideoDataGet ''v1'']" "''masters/alice/v1''" "''video/mp4''"]
  by (simp add: uploadVideo_copy_pending get_prop_def)

end
